theory Spec2Isabelle
  imports Complex_Main "HOL-Library.Multiset"
begin

section \<open>JavaScript strings\<close>

text \<open>
  A JavaScript string is a sequence of UTF-16 code units. The model keeps each code unit
  as a natural number, so that \<open>length\<close>, \<open>includes\<close>, \<open>slice\<close>, \<open>split\<close> and
  \<open>trim\<close> count what the program counts. \<open>str\<close> turns an ASCII literal into such a
  string.
\<close>

type_synonym jsstring = "nat list"

definition str :: "string \<Rightarrow> jsstring" where
  "str s = map of_char s"

text \<open>\<open>s.startsWith(p)\<close> and \<open>s.includes(p)\<close>.\<close>

fun startsWith :: "jsstring \<Rightarrow> jsstring \<Rightarrow> bool" where
  "startsWith s [] = True"
| "startsWith [] (p # ps) = False"
| "startsWith (c # cs) (p # ps) = (c = p \<and> startsWith cs ps)"

fun includes_js :: "jsstring \<Rightarrow> jsstring \<Rightarrow> bool" where
  "includes_js [] p = (p = [])"
| "includes_js (c # cs) p = (startsWith (c # cs) p \<or> includes_js cs p)"

text \<open>
  The code units that \<open>trim\<close> and \<open>parseFloat\<close> strip: the WhiteSpace and
  LineTerminator productions of ECMAScript (TAB, LF, VT, FF, CR, SP, NBSP, U+1680,
  U+2000 to U+200A, U+2028, U+2029, U+202F, U+205F, U+3000, U+FEFF).
\<close>

definition isWhiteSpace :: "nat \<Rightarrow> bool" where
  "isWhiteSpace c =
     (c = 9 \<or> c = 10 \<or> c = 11 \<or> c = 12 \<or> c = 13 \<or> c = 32 \<or> c = 160 \<or> c = 5760
      \<or> (8192 \<le> c \<and> c \<le> 8202) \<or> c = 8232 \<or> c = 8233 \<or> c = 8239 \<or> c = 8287
      \<or> c = 12288 \<or> c = 65279)"

definition trim :: "jsstring \<Rightarrow> jsstring" where
  "trim s = rev (dropWhile isWhiteSpace (rev (dropWhile isWhiteSpace s)))"

text \<open>\<open>(value.split('.')[1] || '')\<close>: the text between the first and the second dot.\<close>

definition splitDotSecond :: "jsstring \<Rightarrow> jsstring" where
  "splitDotSecond s =
     (case dropWhile (\<lambda>c. c \<noteq> 46) s of
        [] \<Rightarrow> []
      | d # r \<Rightarrow> takeWhile (\<lambda>c. c \<noteq> 46) r)"

section \<open>JavaScript numbers\<close>

text \<open>
  A Number is an IEEE 754 binary64 value. \<open>Fin m e\<close> stands for the finite double of
  value \<open>m * 2 ^ e\<close> (the two zeros are identified: the program never tells them apart),
  \<open>Infinity neg\<close> for the infinity of that sign. Every arithmetic result is rounded to the
  nearest double, ties to even, by \<open>toDouble\<close>.
\<close>

datatype jsnum = NaN | Infinity bool | Fin int int

fun bitlen :: "nat \<Rightarrow> nat" where
  "bitlen n = (if n = 0 then 0 else Suc (bitlen (n div 2)))"

declare bitlen.simps [simp del]

text \<open>\<open>floorLog2 p q\<close> is the integer part of the binary logarithm of \<open>p / q\<close>.\<close>

definition floorLog2 :: "nat \<Rightarrow> nat \<Rightarrow> int" where
  "floorLog2 p q =
     (let d = int (bitlen p) - int (bitlen q)
      in if (if 0 \<le> d then q * 2 ^ nat d \<le> p else q \<le> p * 2 ^ nat (- d))
         then d else d - 1)"

text \<open>The integer nearest to \<open>p / q\<close>, a tie going to the even one.\<close>

definition roundHalfEven :: "nat \<Rightarrow> nat \<Rightarrow> nat" where
  "roundHalfEven p q =
     (let m = p div q; r = p mod q
      in if q < 2 * r \<or> (2 * r = q \<and> odd m) then m + 1 else m)"

text \<open>
  The double nearest to the rational \<open>p / q\<close> (\<open>q > 0\<close>): a significand of 53 bits, the
  exponent of the last place at least \<open>-1074\<close> (subnormal numbers), and infinity from
  \<open>2 ^ 1024\<close> on.
\<close>

definition toDouble :: "nat \<Rightarrow> nat \<Rightarrow> jsnum" where
  "toDouble p q =
     (if p = 0 then Fin 0 0
      else
        let e = max (floorLog2 p q - 52) (- 1074);
            m = (if 0 \<le> e then roundHalfEven p (q * 2 ^ nat e)
                 else roundHalfEven (p * 2 ^ nat (- e)) q)
        in if m = 0 then Fin 0 0
           else if 971 < e \<or> (e = 971 \<and> 2 ^ 53 \<le> m) then Infinity False
           else Fin (int m) e)"

fun negate :: "jsnum \<Rightarrow> jsnum" where
  "negate NaN = NaN"
| "negate (Infinity s) = Infinity (\<not> s)"
| "negate (Fin m e) = Fin (- m) e"

text \<open>The double nearest to \<open>a * 2 ^ e\<close>, for \<open>a \<ge> 0\<close>.\<close>

definition ofDyadic :: "nat \<Rightarrow> int \<Rightarrow> jsnum" where
  "ofDyadic a e = (if 0 \<le> e then toDouble (a * 2 ^ nat e) 1 else toDouble a (2 ^ nat (- e)))"

text \<open>The operator \<open>*\<close> on Numbers.\<close>

fun js_mul :: "jsnum \<Rightarrow> jsnum \<Rightarrow> jsnum" where
  "js_mul NaN y = NaN"
| "js_mul x NaN = NaN"
| "js_mul (Infinity s) (Infinity t) = Infinity (s \<noteq> t)"
| "js_mul (Infinity s) (Fin m e) = (if m = 0 then NaN else Infinity (s \<noteq> (m < 0)))"
| "js_mul (Fin m e) (Infinity s) = (if m = 0 then NaN else Infinity (s \<noteq> (m < 0)))"
| "js_mul (Fin m1 e1) (Fin m2 e2) =
     (let r = ofDyadic (nat \<bar>m1 * m2\<bar>) (e1 + e2)
      in if m1 * m2 < 0 then negate r else r)"

text \<open>The operator \<open><\<close> on Numbers (\<open>a > b\<close> is \<open>b < a\<close>); false when either is NaN.\<close>

fun js_lt :: "jsnum \<Rightarrow> jsnum \<Rightarrow> bool" where
  "js_lt NaN y = False"
| "js_lt x NaN = False"
| "js_lt (Infinity s) (Infinity t) = (s \<and> \<not> t)"
| "js_lt (Infinity s) (Fin m e) = s"
| "js_lt (Fin m e) (Infinity s) = (\<not> s)"
| "js_lt (Fin m1 e1) (Fin m2 e2) =
     (let e = min e1 e2 in m1 * 2 ^ nat (e1 - e) < m2 * 2 ^ nat (e2 - e))"

fun isNaN :: "jsnum \<Rightarrow> bool" where
  "isNaN NaN = True"
| "isNaN x = False"

text \<open>\<open>Math.floor\<close>: the result is an integer, so it is a double again.\<close>

fun Math_floor :: "jsnum \<Rightarrow> jsnum" where
  "Math_floor NaN = NaN"
| "Math_floor (Infinity s) = Infinity s"
| "Math_floor (Fin m e) = Fin (if 0 \<le> e then m * 2 ^ nat e else m div 2 ^ nat (- e)) 0"

subsection \<open>parseFloat\<close>

definition isDigit :: "nat \<Rightarrow> bool" where
  "isDigit c = (48 \<le> c \<and> c \<le> 57)"

definition digitsValue :: "jsstring \<Rightarrow> nat" where
  "digitsValue ds = foldl (\<lambda>a c. 10 * a + (c - 48)) 0 ds"

text \<open>
  The optional ExponentPart at the head of the text that follows the mantissa: \<open>e\<close> or
  \<open>E\<close>, an optional sign, and at least one digit. Anything else is no exponent and stays
  outside the parsed prefix.
\<close>

definition exponentPart :: "jsstring \<Rightarrow> int" where
  "exponentPart r =
     (case r of
        [] \<Rightarrow> 0
      | c # r1 \<Rightarrow>
          if c = 101 \<or> c = 69 then
            (case r1 of
               [] \<Rightarrow> 0
             | d # r2 \<Rightarrow>
                 if d = 43 then int (digitsValue (takeWhile isDigit r2))
                 else if d = 45 then - int (digitsValue (takeWhile isDigit r2))
                 else int (digitsValue (takeWhile isDigit r1)))
          else 0)"

text \<open>The double nearest to \<open>n * 10 ^ d\<close>.\<close>

definition ofDecimal :: "nat \<Rightarrow> int \<Rightarrow> jsnum" where
  "ofDecimal n d = (if 0 \<le> d then toDouble (n * 10 ^ nat d) 1 else toDouble n (10 ^ nat (- d)))"

text \<open>
  The longest prefix that is a StrUnsignedDecimalLiteral: \<open>Infinity\<close>, digits with an
  optional fraction, or a dot followed by digits, each with an optional exponent.
  No such prefix gives NaN.
\<close>

definition parseUnsigned :: "jsstring \<Rightarrow> jsnum" where
  "parseUnsigned s =
     (if startsWith s (str ''Infinity'') then Infinity False
      else
        let ip = takeWhile isDigit s; r = dropWhile isDigit s
        in if ip \<noteq> [] then
             (case r of
                [] \<Rightarrow> ofDecimal (digitsValue ip) 0
              | c # r1 \<Rightarrow>
                  if c = 46 then
                    (let fp = takeWhile isDigit r1
                     in ofDecimal (digitsValue (ip @ fp))
                          (exponentPart (dropWhile isDigit r1) - int (length fp)))
                  else ofDecimal (digitsValue ip) (exponentPart r))
           else
             (case r of
                [] \<Rightarrow> NaN
              | c # r1 \<Rightarrow>
                  let fp = takeWhile isDigit r1
                  in if c = 46 \<and> fp \<noteq> [] then
                       ofDecimal (digitsValue fp)
                         (exponentPart (dropWhile isDigit r1) - int (length fp))
                     else NaN))"

definition parseFloat :: "jsstring \<Rightarrow> jsnum" where
  "parseFloat s =
     (case dropWhile isWhiteSpace s of
        [] \<Rightarrow> NaN
      | c # r \<Rightarrow>
          if c = 45 then negate (parseUnsigned r)
          else if c = 43 then parseUnsigned r
          else parseUnsigned (c # r))"

section \<open>The amount validator\<close>

record validation =
  valid :: bool
  error :: "jsstring option"

definition MAX_POSITION_SIZE_USDC :: jsnum where
  "MAX_POSITION_SIZE_USDC = Fin 100000 0"

definition MIN_POSITION_SIZE_USDC :: jsnum where
  "MIN_POSITION_SIZE_USDC = Fin 1 0"

definition reject :: "string \<Rightarrow> validation" where
  "reject msg = \<lparr>valid = False, error = Some (str msg)\<rparr>"

definition validateAmount :: "jsstring \<Rightarrow> validation" where
  "validateAmount v =
     (if v = [] \<or> trim v = [] then reject ''Amount required''
      else if includes_js v (str ''e'') \<or> includes_js v (str ''E'')
        then reject ''Scientific notation not allowed''
      else
        let num = parseFloat v
        in if isNaN num then reject ''Invalid number''
           else if js_lt num (Fin 0 0) then reject ''Amount must be positive''
           else if js_lt num MIN_POSITION_SIZE_USDC then reject ''Minimum 1 USDC''
           else if js_lt MAX_POSITION_SIZE_USDC num then reject ''Maximum 100000 USDC''
           else if 2 < length (splitDotSecond v) then reject ''Maximum 2 decimal places''
           else \<lparr>valid = True, error = None\<rparr>)"

section \<open>Thrown values and the error classifier\<close>

text \<open>
  What a \<open>catch\<close> clause can receive, the parameter being typed \<open>any\<close>:
  \<^item> \<open>Error m\<close>, an instance of \<open>Error\<close> whose message is the string \<open>m\<close>;
  \<^item> \<open>ErrorNonString v\<close>, an instance of \<open>Error\<close> whose message is \<open>undefined\<close>, \<open>null\<close>, a
    number or a boolean, \<open>v\<close> being the text \<open>String(message)\<close> gives;
  \<^item> \<open>NonError v\<close>, any other value that \<open>String\<close> converts, \<open>v\<close> being that text;
  \<^item> \<open>NullPrototype\<close>, an object without prototype, which \<open>String\<close> cannot convert.
\<close>

datatype thrown =
    Error jsstring
  | ErrorNonString jsstring
  | NonError jsstring
  | NullPrototype

text \<open>
  \<open>const message = error instanceof Error ? error.message : String(error)\<close>, together
  with the look-up of \<open>message.includes\<close> that the first test makes on every path. The
  result is the message when it is a string. Otherwise a TypeError is thrown: by
  \<open>String(error)\<close> for an object without prototype, by \<open>message.includes\<close> for a message
  that is no string (no property can be read from \<open>undefined\<close> or \<open>null\<close>; a number or a
  boolean has no such method).
\<close>

fun messageOf :: "thrown \<Rightarrow> thrown + jsstring" where
  "messageOf (Error m) = Inr m"
| "messageOf (ErrorNonString v) =
     Inl (Error (if v = str ''undefined'' \<or> v = str ''null''
                 then str ''Cannot read properties of '' @ v @ str '' (reading 'includes')''
                 else str ''message.includes is not a function''))"
| "messageOf (NonError v) = Inr v"
| "messageOf NullPrototype = Inl (Error (str ''Cannot convert object to primitive value''))"

text \<open>The classifier: \<open>Inl\<close> is the value it throws, \<open>Inr\<close> the text it returns.\<close>

definition getUserFriendlyError :: "thrown \<Rightarrow> thrown + jsstring" where
  "getUserFriendlyError err =
     (case messageOf err of
        Inl typeError \<Rightarrow> Inl typeError
      | Inr message \<Rightarrow>
          Inr (if includes_js message (str ''insufficient funds'')
                  \<or> includes_js message (str ''insufficient lamports'')
               then str ''Insufficient balance. Please add more USDC or SOL.''
               else if includes_js message (str ''slippage'')
               then str ''Price moved too much. Try increasing slippage tolerance.''
               else if includes_js message (str ''User rejected'')
                  \<or> includes_js message (str ''rejected'')
               then str ''Transaction cancelled by user.''
               else if includes_js message (str ''simulation failed'')
               then str ''Transaction validation failed. Check your inputs and balance.''
               else if includes_js message (str ''timeout'')
               then str ''Transaction timeout. Please try again.''
               else str ''Error: '' @ message))"

section \<open>The state of the trade panel\<close>

text \<open>
  The component's \<open>useState\<close> cells, one field each. A venue client or an account object
  is a handle. Every function below takes the state it reads and returns the state its
  setters leave, together with the calls it made on the outside world, in order.
  \<open>UnhandledRejection\<close> stands for the promise of an \<open>async\<close> handler that rejects with
  nobody awaiting it.
  \<open>selectedMarket\<close> is the position of the chosen option in the market list.
\<close>

type_synonym handle = nat

record panel =
  driftClient :: "handle option"
  user :: "handle option"
  isInitializing :: bool
  amount :: jsstring
  amountError :: jsstring
  leverage :: jsstring
  slippageTolerance :: jsnum
  loading :: bool
  status :: jsstring
  selectedMarket :: nat

text \<open>What \<open>useWallet\<close> and \<open>useConnection\<close> hand to the component.\<close>

record wallet =
  publicKey :: "jsstring option"
  connection :: bool
  signTransaction :: bool
  signAllTransactions :: bool

datatype direction = LONG | SHORT

datatype marketType = PERP | SPOT

record orderParams =
  orderType :: nat
  marketIndex :: nat
  direction :: direction
  baseAssetAmount :: int
  marketType :: marketType
  maxSlippageBps :: int

datatype effect =
    ClientSubscribe handle
  | ClientUnsubscribe handle
  | GetUserAccountPublicKey handle
  | GetAccountInfo jsstring
  | UserSubscribe handle
  | UserUnsubscribe handle
  | PlaceAndTakePerpOrder handle orderParams
  | ConfirmTransaction jsstring
  | ConsoleError jsstring thrown
  | SetTimeout nat
  | UnhandledRejection thrown

definition initialPanel :: panel where
  "initialPanel =
     \<lparr>driftClient = None, user = None, isInitializing = False, amount = [],
      amountError = [], leverage = str ''5'', slippageTolerance = parseFloat (str ''0.5''),
      loading = False, status = [], selectedMarket = 0\<rparr>"

section \<open>Session initialisation\<close>

text \<open>
  The answers of the outside world to one run of \<open>initializeDrift\<close>: what the two
  constructors return or throw, and how each awaited promise settles (\<open>Inl\<close> is a
  rejection). \<open>accountInfo\<close> tells whether \<open>getAccountInfo\<close> found the account.
\<close>

record init_env =
  newDriftClient :: "thrown + handle"
  clientSubscribe :: "thrown + unit"
  userAccountPublicKey :: "thrown + jsstring"
  accountInfo :: "thrown + bool"
  newUser :: "thrown + handle"
  userSubscribe :: "thrown + unit"

definition accountNotFound :: jsstring where
  "accountNotFound =
     [9888, 65039]
     @ str '' Drift user account not found. Please create one at drift.trade first.''"

definition connected :: jsstring where
  "connected = 9989 # str '' Connected to Drift Protocol!''"

text \<open>
  The body of the \<open>try\<close> block from the point where \<open>await client.subscribe()\<close> settles:
  the state and the calls so far, and the value thrown, if any.
\<close>

definition initTryBody :: "init_env \<Rightarrow> handle \<Rightarrow> panel \<Rightarrow> panel \<times> effect list \<times> thrown option" where
  "initTryBody env client s =
     (case clientSubscribe env of
        Inl err \<Rightarrow> (s, [], Some err)
      | Inr _ \<Rightarrow>
          let s1 = s\<lparr>driftClient := Some client\<rparr>
          in case userAccountPublicKey env of
               Inl err \<Rightarrow> (s1, [GetUserAccountPublicKey client], Some err)
             | Inr pk \<Rightarrow>
                 let calls = [GetUserAccountPublicKey client, GetAccountInfo pk]
                 in case accountInfo env of
                      Inl err \<Rightarrow> (s1, calls, Some err)
                    | Inr userAccountExists \<Rightarrow>
                        if \<not> userAccountExists then
                          (s1\<lparr>status := accountNotFound, isInitializing := False\<rparr>, calls, None)
                        else
                          case newUser env of
                            Inl err \<Rightarrow> (s1, calls, Some err)
                          | Inr driftUser \<Rightarrow>
                              (case userSubscribe env of
                                 Inl err \<Rightarrow> (s1, calls @ [UserSubscribe driftUser], Some err)
                               | Inr _ \<Rightarrow>
                                   (s1\<lparr>user := Some driftUser, status := connected\<rparr>,
                                    calls @ [UserSubscribe driftUser, SetTimeout 3000], None)))"

text \<open>
  The \<open>catch\<close> and \<open>finally\<close> clauses of \<open>initializeDrift\<close>. The status is a template
  literal, which converts a message that is no string to its text.
\<close>

definition initCatchFinally :: "panel \<times> effect list \<times> thrown option \<Rightarrow> panel \<times> effect list" where
  "initCatchFinally r =
     (case r of
        (s, calls, None) \<Rightarrow> (s\<lparr>isInitializing := False\<rparr>, calls)
      | (s, calls, Some err) \<Rightarrow>
          (s\<lparr>status := [10060] @ str '' Error: ''
                  @ (case err of
                       Error m \<Rightarrow> m
                     | ErrorNonString v \<Rightarrow> v
                     | NonError v \<Rightarrow> str ''Failed to initialize''
                     | NullPrototype \<Rightarrow> str ''Failed to initialize''),
             isInitializing := False\<rparr>,
           calls @ [ConsoleError (str ''Error initializing Drift:'') err]))"

text \<open>
  An \<open>async\<close> function runs synchronously up to its first \<open>await\<close>. \<open>initializeDrift_start\<close>
  is that part: the guard, the two setters, the constructor and the call of
  \<open>client.subscribe()\<close>. It returns the client whose subscription is awaited, or \<open>None\<close>
  when the function has already returned. \<open>initializeDrift_resume\<close> is the rest, run
  when the promise settles.
\<close>

definition initializeDrift_start :: "wallet \<Rightarrow> init_env \<Rightarrow> panel \<Rightarrow> panel \<times> effect list \<times> handle option" where
  "initializeDrift_start w env s =
     (if publicKey w = None \<or> \<not> signTransaction w \<or> \<not> signAllTransactions w then (s, [], None)
      else
        let s1 = s\<lparr>isInitializing := True, status := str ''Initializing Drift Protocol...''\<rparr>
        in case newDriftClient env of
             Inl err \<Rightarrow> (case initCatchFinally (s1, [], Some err) of (s2, calls) \<Rightarrow> (s2, calls, None))
           | Inr client \<Rightarrow> (s1, [ClientSubscribe client], Some client))"

definition initializeDrift_resume :: "init_env \<Rightarrow> handle \<Rightarrow> panel \<Rightarrow> panel \<times> effect list" where
  "initializeDrift_resume env client s = initCatchFinally (initTryBody env client s)"

definition initializeDrift :: "wallet \<Rightarrow> init_env \<Rightarrow> panel \<Rightarrow> panel \<times> effect list" where
  "initializeDrift w env s =
     (case initializeDrift_start w env s of
        (s1, calls, None) \<Rightarrow> (s1, calls)
      | (s1, calls, Some client) \<Rightarrow>
          (case initializeDrift_resume env client s1 of (s2, calls2) \<Rightarrow> (s2, calls @ calls2)))"

text \<open>
  The effect that starts the session when the wallet connects. It does not await
  \<open>initializeDrift()\<close>: the effect is over once the synchronous part has run.
\<close>

definition connectEffect :: "wallet \<Rightarrow> init_env \<Rightarrow> panel \<Rightarrow> panel \<times> effect list \<times> handle option" where
  "connectEffect w env s =
     (if publicKey w \<noteq> None \<and> connection w \<and> signTransaction w \<and> signAllTransactions w
         \<and> driftClient s = None
      then initializeDrift_start w env s
      else (s, [], None))"

section \<open>Session teardown\<close>

text \<open>
  How the two \<open>unsubscribe()\<close> promises settle. Both methods are \<open>async\<close>: a failure is
  a rejected promise, never an exception at the call.
\<close>

record unsub_env =
  clientUnsubscribe :: "thrown + unit"
  userUnsubscribe :: "thrown + unit"

text \<open>
  \<open>p.catch(handler)\<close>: the calls the handler makes if \<open>p\<close> rejects, and the promise
  \<open>catch\<close> returns, which is fulfilled either way since the handler returns normally.
  The handler runs in a later turn of the event loop, once \<open>p\<close> has settled; the order
  in which the handlers of two promises run depends on when each promise settles, so
  their calls are kept as a multiset.
\<close>

definition promiseCatch :: "thrown + unit \<Rightarrow> (thrown \<Rightarrow> effect list) \<Rightarrow> effect multiset \<times> (thrown + unit)" where
  "promiseCatch p handler =
     (case p of Inl err \<Rightarrow> (mset (handler err), Inr ()) | Inr v \<Rightarrow> ({#}, Inr v))"

text \<open>A promise nobody awaits: its rejection would be left unhandled.\<close>

definition unhandled :: "thrown + unit \<Rightarrow> thrown list" where
  "unhandled p = (case p of Inl err \<Rightarrow> [err] | Inr _ \<Rightarrow> [])"

text \<open>
  The cleanup the second effect returns, run on unmount and when a handle changes. It
  has no \<open>throw\<close> and no \<open>await\<close>, so it always returns, and it has made both
  \<open>unsubscribe\<close> calls by then. The result is those calls in order, the calls the
  \<open>catch\<close> handlers make afterwards, and the rejections left unhandled.
\<close>

definition cleanup :: "unsub_env \<Rightarrow> panel \<Rightarrow> effect list \<times> effect multiset \<times> thrown list" where
  "cleanup env s =
     (let (calls1, logged1, left1) =
            (case driftClient s of
               None \<Rightarrow> ([], {#}, [])
             | Some c \<Rightarrow>
                 (case promiseCatch (clientUnsubscribe env)
                         (\<lambda>err. [ConsoleError (str ''Error unsubscribing driftClient:'') err]) of
                    (logged, p) \<Rightarrow> ([ClientUnsubscribe c], logged, unhandled p)));
          (calls2, logged2, left2) =
            (case user s of
               None \<Rightarrow> ([], {#}, [])
             | Some u \<Rightarrow>
                 (case promiseCatch (userUnsubscribe env)
                         (\<lambda>err. [ConsoleError (str ''Error unsubscribing user:'') err]) of
                    (logged, p) \<Rightarrow> ([UserUnsubscribe u], logged, unhandled p)))
      in (calls1 @ calls2, logged1 + logged2, left1 @ left2))"

text \<open>
  The effect that clears the session when the wallet disconnects: the state it leaves,
  the calls it makes before it returns, the calls of the \<open>catch\<close> handlers
  (\<open>console.error\<close> itself, so the rejection is logged without a label) and the
  rejections left unhandled.
\<close>

definition disconnectEffect :: "wallet \<Rightarrow> unsub_env \<Rightarrow> panel \<Rightarrow> panel \<times> effect list \<times> effect multiset \<times> thrown list" where
  "disconnectEffect w env s =
     (case driftClient s of
        None \<Rightarrow> (s, [], {#}, [])
      | Some c \<Rightarrow>
          if publicKey w \<noteq> None then (s, [], {#}, [])
          else
            (case promiseCatch (clientUnsubscribe env) (\<lambda>err. [ConsoleError [] err]) of
               (logged1, p1) \<Rightarrow>
                 let s1 = s\<lparr>driftClient := None\<rparr>
                 in case user s of
                      None \<Rightarrow>
                        (s1\<lparr>status := str ''Wallet disconnected''\<rparr>, [ClientUnsubscribe c],
                         logged1, unhandled p1)
                    | Some u \<Rightarrow>
                        (case promiseCatch (userUnsubscribe env) (\<lambda>err. [ConsoleError [] err]) of
                           (logged2, p2) \<Rightarrow>
                             (s1\<lparr>user := None, status := str ''Wallet disconnected''\<rparr>,
                              [ClientUnsubscribe c, UserUnsubscribe u],
                              logged1 + logged2,
                              unhandled p1 @ unhandled p2))))"

section \<open>Order sizing\<close>

text \<open>
  \<open>new BN(number)\<close> of bn.js, the arbitrary-precision integer of the venue SDK. The
  constructor initialises from \<open>number || 0\<close>, so NaN gives zero like zero itself. A
  number below \<open>2 ^ 53\<close> in magnitude gives its integer part; for a larger or infinite
  number the assertion of the constructor fails and it throws.
\<close>

fun new_BN :: "jsnum \<Rightarrow> thrown + int" where
  "new_BN (Fin m e) =
     (let a = (if 0 \<le> e then \<bar>m\<bar> * 2 ^ nat e else \<bar>m\<bar> div 2 ^ nat (- e))
      in if a < 2 ^ 53 then Inr (if m < 0 then - a else a)
         else Inl (Error (str ''Assertion failed'')))"
| "new_BN NaN = Inr 0"
| "new_BN (Infinity neg) = Inl (Error (str ''Assertion failed''))"

definition andThen :: "thrown + 'a \<Rightarrow> ('a \<Rightarrow> thrown + 'b) \<Rightarrow> thrown + 'b" where
  "andThen r f = (case r of Inl err \<Rightarrow> Inl err | Inr v \<Rightarrow> f v)"

definition baseAmount :: "jsstring \<Rightarrow> thrown + int" where
  "baseAmount amt = new_BN (Math_floor (js_mul (parseFloat amt) (Fin 1000000 0)))"

definition leverageMultiplier :: "jsstring \<Rightarrow> thrown + int" where
  "leverageMultiplier lev = new_BN (Math_floor (parseFloat lev))"

definition positionSize :: "jsstring \<Rightarrow> jsstring \<Rightarrow> thrown + int" where
  "positionSize amt lev =
     andThen (baseAmount amt) (\<lambda>b. andThen (leverageMultiplier lev) (\<lambda>l. Inr (b * l)))"

definition slippageBps :: "jsnum \<Rightarrow> thrown + int" where
  "slippageBps tolerance = new_BN (Math_floor (js_mul tolerance (Fin 100 0)))"

text \<open>The \<open>index\<close> fields of the \<open>markets\<close> table: SOL-PERP, BTC-PERP, ETH-PERP.\<close>

definition markets :: "nat list" where
  "markets = [0, 1, 2]"

text \<open>
  \<open>markets[selectedMarket].index\<close>: outside the table the element is \<open>undefined\<close> and
  reading its property throws a TypeError.
\<close>

definition marketIndexOf :: "nat \<Rightarrow> thrown + nat" where
  "marketIndexOf i =
     (if i < length markets then Inr (markets ! i)
      else Inl (Error (str ''Cannot read properties of undefined (reading 'index')'')))"

text \<open>The statements of \<open>openPosition\<close> that build \<open>orderParams\<close>, in their order.\<close>

definition buildOrderParams :: "panel \<Rightarrow> direction \<Rightarrow> thrown + orderParams" where
  "buildOrderParams s dir =
     andThen (positionSize (amount s) (leverage s)) (\<lambda>size.
     andThen (marketIndexOf (selectedMarket s)) (\<lambda>idx.
     andThen (slippageBps (slippageTolerance s)) (\<lambda>bps.
       Inr \<lparr>orderType = 0, marketIndex = idx, direction = dir, baseAssetAmount = size,
            marketType = PERP, maxSlippageBps = bps\<rparr>)))"

section \<open>Order submission\<close>

text \<open>
  How the venue answers one submission: the transaction signature or a failure of
  \<open>placeAndTakePerpOrder\<close>, and for \<open>confirmTransaction\<close> a failure or whether the
  confirmation carries an on-chain error.
\<close>

record order_env =
  placeOrder :: "thrown + jsstring"
  confirmation :: "thrown + bool"

definition directionText :: "direction \<Rightarrow> jsstring" where
  "directionText dir = (if dir = LONG then str ''LONG'' else str ''SHORT'')"

definition preconditionsNotMet :: jsstring where
  "preconditionsNotMet = str ''Please connect wallet, enter amount, and accept terms''"

definition positionOpened :: "direction \<Rightarrow> jsstring \<Rightarrow> jsstring" where
  "positionOpened dir txSig =
     [9989, 32] @ directionText dir @ str '' position opened! TX: '' @ take 8 txSig @ str ''...''"

text \<open>
  The \<open>try\<close> block of \<open>openPosition\<close>: the state after the last setter that ran, the
  calls made, and the value thrown, if any. The status \<open>Validating transaction...\<close> is
  replaced by the next setter before anything is awaited, so it never shows and is left
  out.
\<close>

definition openTryBody :: "order_env \<Rightarrow> direction \<Rightarrow> handle \<Rightarrow> panel \<Rightarrow> panel \<times> effect list \<times> thrown option" where
  "openTryBody env dir client s =
     (case buildOrderParams s dir of
        Inl err \<Rightarrow> (s, [], Some err)
      | Inr params \<Rightarrow>
          let s1 = s\<lparr>status := str ''Opening '' @ directionText dir @ str '' position...''\<rparr>;
              calls1 = [PlaceAndTakePerpOrder client params]
          in case placeOrder env of
               Inl err \<Rightarrow> (s1, calls1, Some err)
             | Inr txSig \<Rightarrow>
                 let s2 = s1\<lparr>status := 9203 # str '' Transaction submitted, waiting for confirmation...''\<rparr>;
                     calls2 = calls1 @ [ConfirmTransaction txSig]
                 in case confirmation env of
                      Inl err \<Rightarrow> (s2, calls2, Some err)
                    | Inr onChainErr \<Rightarrow>
                        if onChainErr then
                          (s2, calls2, Some (Error (str ''Transaction failed on-chain'')))
                        else
                          (s2\<lparr>status := positionOpened dir txSig, amount := [], amountError := []\<rparr>,
                           calls2 @ [SetTimeout 5000], None))"

text \<open>
  \<open>openPosition\<close> with its \<open>catch\<close> and \<open>finally\<close> clauses. When the classifier itself
  throws inside the \<open>catch\<close> clause, the error has been logged, the status is not set,
  \<open>finally\<close> still clears \<open>loading\<close>, and the promise of \<open>openPosition\<close> rejects; the
  click handler drops that promise.
\<close>

definition openPosition :: "bool \<Rightarrow> order_env \<Rightarrow> direction \<Rightarrow> panel \<Rightarrow> panel \<times> effect list" where
  "openPosition termsAccepted env dir s =
     (case driftClient s of
        None \<Rightarrow> (s\<lparr>status := preconditionsNotMet\<rparr>, [])
      | Some client \<Rightarrow>
          if user s = None \<or> amount s = [] \<or> \<not> termsAccepted
          then (s\<lparr>status := preconditionsNotMet\<rparr>, [])
          else
            let validation = validateAmount (amount s)
            in if \<not> valid validation then
                 (s\<lparr>status := [10060, 32]
                      @ (case error validation of Some msg \<Rightarrow> msg | None \<Rightarrow> str ''undefined'')\<rparr>, [])
               else
                 (case openTryBody env dir client (s\<lparr>loading := True\<rparr>) of
                    (s1, calls, None) \<Rightarrow> (s1\<lparr>loading := False\<rparr>, calls)
                  | (s1, calls, Some err) \<Rightarrow>
                      (case getUserFriendlyError err of
                         Inr userMessage \<Rightarrow>
                           (s1\<lparr>status := [10060, 32] @ userMessage, loading := False\<rparr>,
                            calls @ [ConsoleError (str ''Error opening position:'') err])
                       | Inl typeError \<Rightarrow>
                           (s1\<lparr>loading := False\<rparr>,
                            calls @ [ConsoleError (str ''Error opening position:'') err,
                                     UnhandledRejection typeError]))))"

section \<open>Concrete sessions\<close>

text \<open>A connected wallet, a venue that knows no account for it, and a ready session.\<close>

definition connectedWallet :: wallet where
  "connectedWallet =
     \<lparr>publicKey = Some (str ''wallet''), connection = True, signTransaction = True,
      signAllTransactions = True\<rparr>"

definition noAccountEnv :: init_env where
  "noAccountEnv =
     \<lparr>newDriftClient = Inr 1, clientSubscribe = Inr (),
      userAccountPublicKey = Inr (str ''account''), accountInfo = Inr False,
      newUser = Inr 2, userSubscribe = Inr ()\<rparr>"

definition readyPanel :: panel where
  "readyPanel = initialPanel\<lparr>driftClient := Some 1, user := Some 2, amount := str ''500''\<rparr>"

definition confirmedEnv :: order_env where
  "confirmedEnv = \<lparr>placeOrder = Inr (str ''5hG7kQpXw2Lm9''), confirmation = Inr False\<rparr>"

definition failingUnsubEnv :: unsub_env where
  "failingUnsubEnv =
     \<lparr>clientUnsubscribe = Inl (Error (str ''socket closed'')),
      userUnsubscribe = Inl (NonError (str ''gone''))\<rparr>"

section \<open>Evaluation and basic facts\<close>

lemmas eval_string = str_def isWhiteSpace_def isDigit_def digitsValue_def trim_def
  splitDotSecond_def

lemmas eval_number = toDouble_def floorLog2_def bitlen.simps roundHalfEven_def ofDyadic_def
  ofDecimal_def exponentPart_def parseUnsigned_def parseFloat_def Let_def

lemmas eval_sizing = positionSize_def baseAmount_def leverageMultiplier_def andThen_def
  slippageBps_def marketIndexOf_def markets_def buildOrderParams_def

lemmas eval_validate = validateAmount_def reject_def MAX_POSITION_SIZE_USDC_def
  MIN_POSITION_SIZE_USDC_def

lemmas eval_init = initializeDrift_def initializeDrift_start_def initializeDrift_resume_def
  initTryBody_def initCatchFinally_def connectEffect_def

text \<open>\<open>includes_js\<close> is the substring test.\<close>

lemma startsWith_iff: "startsWith s p \<longleftrightarrow> (\<exists>b. s = p @ b)"
  by (induction s p rule: startsWith.induct) auto

lemma includes_js_iff: "includes_js s p \<longleftrightarrow> (\<exists>a b. s = a @ p @ b)"
proof (induction s)
  case Nil
  then show ?case by auto
next
  case (Cons c cs)
  show ?case
  proof
    assume "includes_js (c # cs) p"
    then consider "startsWith (c # cs) p" | "includes_js cs p" by auto
    then show "\<exists>a b. c # cs = a @ p @ b"
    proof cases
      case 1
      then obtain b where "c # cs = p @ b" using startsWith_iff by blast
      then have "c # cs = [] @ p @ b" by simp
      then show ?thesis by blast
    next
      case 2
      then obtain a b where "cs = a @ p @ b" using Cons.IH by blast
      then have "c # cs = (c # a) @ p @ b" by simp
      then show ?thesis by blast
    qed
  next
    assume "\<exists>a b. c # cs = a @ p @ b"
    then obtain a b where ab: "c # cs = a @ p @ b" by blast
    show "includes_js (c # cs) p"
    proof (cases a)
      case Nil
      with ab have "startsWith (c # cs) p" using startsWith_iff by auto
      then show ?thesis by simp
    next
      case (Cons x xs)
      with ab have "cs = xs @ p @ b" by simp
      then have "includes_js cs p" using Cons.IH by blast
      then show ?thesis by simp
    qed
  qed
qed

text \<open>The doubles behind the sizing step, on the inputs used below.\<close>

lemma parseFloat_2_01: "parseFloat (str ''2.01'') = Fin 4526117625507348 (- 51)"
  by (simp add: eval_string eval_number)

lemma product_2_01: "js_mul (parseFloat (str ''2.01'')) (Fin 1000000 0) = Fin 8632884264959999 (- 32)"
  by (simp add: eval_string eval_number)

lemma parseFloat_4_1: "parseFloat (str ''4.1'') = Fin 4616189618054758 (- 50)"
  by (simp add: eval_string eval_number)

lemma product_4_1: "js_mul (parseFloat (str ''4.1'')) (Fin 100 0) = Fin 7212796278210559 (- 44)"
  by (simp add: eval_string eval_number)

text \<open>The boundary input of the specification is sized exactly.\<close>

lemma positionSize_boundary: "positionSize (str ''99999.99'') (str ''10'') = Inr 999999900000"
  by (simp add: eval_string eval_number eval_sizing)

text \<open>The specification's two slippage examples.\<close>

lemma slippageBps_examples:
  "slippageBps (parseFloat (str ''0.5'')) = Inr 50 \<and> slippageBps (parseFloat (str ''5.0'')) = Inr 500"
  by (simp add: eval_string eval_number eval_sizing)

text \<open>The specification's end-to-end order: 500 at leverage 5 and 0.5 percent slippage.\<close>

lemma buildOrderParams_ready:
  "buildOrderParams readyPanel LONG =
     Inr \<lparr>orderType = 0, marketIndex = 0, direction = LONG, baseAssetAmount = 2500000000,
          marketType = PERP, maxSlippageBps = 50\<rparr>"
  by (simp add: readyPanel_def initialPanel_def eval_string eval_number eval_sizing)

lemma validateAmount_500: "validateAmount (str ''500'') = \<lparr>valid = True, error = None\<rparr>"
  by (simp add: eval_string eval_number eval_validate)

text \<open>The specification's three validation examples.\<close>

lemma validateAmount_examples:
  "validateAmount (str ''0.5'') = reject ''Minimum 1 USDC''
   \<and> valid (validateAmount (str ''100000''))
   \<and> validateAmount (str ''100000.01'') = reject ''Maximum 100000 USDC''"
  by (simp add: eval_string eval_number eval_validate)

text \<open>A leverage text that is no number is sized as zero, since \<open>new BN(NaN)\<close> is zero.\<close>

lemma leverageMultiplier_not_a_number: "leverageMultiplier (str ''abc'') = Inr 0"
  by (simp add: eval_string eval_number eval_sizing)

text \<open>A rejected amount always carries its reason.\<close>

lemma validateAmount_invalid_error:
  "\<not> valid (validateAmount v) \<Longrightarrow> \<exists>msg. error (validateAmount v) = Some msg"
  by (simp add: validateAmount_def reject_def Let_def split: if_splits)

lemma disconnectEffect_clears_client:
  "publicKey w = None \<Longrightarrow> driftClient (fst (disconnectEffect w ue s)) = None"
  by (simp add: disconnectEffect_def promiseCatch_def Let_def split: option.split sum.split)

text \<open>The disconnect effect leaves no rejection unhandled either.\<close>

lemma disconnectEffect_handles_rejections:
  "snd (snd (snd (disconnectEffect w ue s))) = []"
  by (simp add: disconnectEffect_def promiseCatch_def unhandled_def Let_def
           split: option.split sum.split)

text \<open>
  A submission that fails with an object without prototype: the error is logged, the
  classifier throws, the status stays at the last one set and \<open>loading\<close> is cleared.
\<close>

lemma openPosition_classifier_throws:
  "openPosition True \<lparr>placeOrder = Inl NullPrototype, confirmation = Inr False\<rparr> LONG readyPanel
     = (readyPanel\<lparr>status := str ''Opening LONG position...''\<rparr>,
        [PlaceAndTakePerpOrder 1
           \<lparr>orderType = 0, marketIndex = 0, direction = LONG, baseAssetAmount = 2500000000,
            marketType = PERP, maxSlippageBps = 50\<rparr>,
         ConsoleError (str ''Error opening position:'') NullPrototype,
         UnhandledRejection (Error (str ''Cannot convert object to primitive value''))])"
proof -
  have v: "validateAmount (amount readyPanel) = \<lparr>valid = True, error = None\<rparr>"
    by (simp add: readyPanel_def validateAmount_500)
  have b: "buildOrderParams (readyPanel\<lparr>loading := True\<rparr>) LONG = buildOrderParams readyPanel LONG"
    by (simp add: buildOrderParams_def)
  have r: "driftClient readyPanel = Some 1 \<and> user readyPanel = Some 2
      \<and> amount readyPanel \<noteq> [] \<and> loading readyPanel = False"
    by (simp add: readyPanel_def initialPanel_def str_def)
  show ?thesis
    using r
    by (simp add: openPosition_def openTryBody_def v b buildOrderParams_ready
          getUserFriendlyError_def directionText_def str_def)
qed

lemma buildOrderParams_loading:
  "buildOrderParams (s\<lparr>loading := b\<rparr>) dir = buildOrderParams s dir"
  by (simp add: buildOrderParams_def)

lemma openPosition_frame:
  "leverage (fst (openPosition t env dir s)) = leverage s
   \<and> slippageTolerance (fst (openPosition t env dir s)) = slippageTolerance s
   \<and> selectedMarket (fst (openPosition t env dir s)) = selectedMarket s
   \<and> driftClient (fst (openPosition t env dir s)) = driftClient s
   \<and> user (fst (openPosition t env dir s)) = user s"
  by (simp add: openPosition_def openTryBody_def Let_def split: option.split sum.split)

lemma openPosition_success:
  assumes "driftClient s \<noteq> None" "user s \<noteq> None" "amount s \<noteq> []" "t"
    and "valid (validateAmount (amount s))" "\<not> isl (buildOrderParams s dir)"
    and "\<not> isl (placeOrder env)" "confirmation env = Inr False"
  shows "amount (fst (openPosition t env dir s)) = []
     \<and> amountError (fst (openPosition t env dir s)) = []"
  using assms
  by (auto simp: openPosition_def openTryBody_def Let_def buildOrderParams_loading
           split: option.split sum.split)

lemma openPosition_failure:
  assumes "\<not> (driftClient s \<noteq> None \<and> user s \<noteq> None \<and> amount s \<noteq> [] \<and> t
      \<and> valid (validateAmount (amount s)) \<and> \<not> isl (buildOrderParams s dir)
      \<and> \<not> isl (placeOrder env) \<and> confirmation env = Inr False)"
  shows "amount (fst (openPosition t env dir s)) = amount s"
  using assms
  by (auto simp: openPosition_def openTryBody_def Let_def buildOrderParams_loading
           split: option.split sum.split)

section \<open>Properties of the specification\<close>

text \<open>
  C1. The sizing step is claimed to give \<open>floor (q * 1000000) * l\<close> for every validated
  quantity \<open>q\<close>, read as an exact rational, and every leverage \<open>l\<close>. The program multiplies
  the double nearest to \<open>q\<close> by one million in floating point before it truncates. The
  quantity \<open>2.01\<close> passes the validator; its double lies just below 2.01, the rounded
  product is \<open>2009999.9999999998\<close> (\<open>product_2_01\<close>), and at leverage 5 the position
  size is 10049995 where the exact amount is 10050000.
\<close>

theorem positionSize_one_short:
  "valid (validateAmount (str ''2.01''))
   \<and> positionSize (str ''2.01'') (str ''5'') = Inr 10049995
   \<and> \<lfloor>(201 / 100 :: rat) * 1000000\<rfloor> * 5 = 10050000"
  by (simp add: eval_string eval_number eval_sizing eval_validate)

text \<open>
  C2. When the account lookup reports no account, session initialisation is claimed to
  end with no venue client handle retained. The program stores the client as soon as
  its subscription resolves, before the lookup, and never clears it: on the concrete run
  below the client handle is still in the state.
\<close>

theorem initializeDrift_keeps_client:
  "accountInfo noAccountEnv = Inr False
   \<and> driftClient initialPanel = None
   \<and> driftClient (fst (initializeDrift connectedWallet noAccountEnv initialPanel)) = Some 1"
  by (simp add: eval_init connectedWallet_def noAccountEnv_def initialPanel_def)

text \<open>
  C2, as the program has it. For every run of session initialisation in which the wallet
  has its three capabilities, the client is built and subscribed, and the lookup reports
  that the account does not exist: the run ends with the subscribed client handle
  stored, the account handle and every other field but the status untouched,
  \<open>isInitializing\<close> false and the status directing the user to create an account; the
  only calls are the client subscription, the derivation of the account address and the
  lookup, so no account subscription is made.
\<close>

theorem initializeDrift_account_not_found:
  assumes "publicKey w \<noteq> None" "signTransaction w" "signAllTransactions w"
    and "newDriftClient env = Inr client" "clientSubscribe env = Inr ()"
    and "userAccountPublicKey env = Inr pk" "accountInfo env = Inr False"
  shows "initializeDrift w env s =
     (s\<lparr>driftClient := Some client, isInitializing := False, status := accountNotFound\<rparr>,
      [ClientSubscribe client, GetUserAccountPublicKey client, GetAccountInfo pk])"
  using assms by (simp add: eval_init)

theorem initializeDrift_account_not_found_witness:
  "initializeDrift connectedWallet noAccountEnv initialPanel =
     (initialPanel\<lparr>driftClient := Some 1, isInitializing := False, status := accountNotFound\<rparr>,
      [ClientSubscribe 1, GetUserAccountPublicKey 1, GetAccountInfo (str ''account'')])"
  using initializeDrift_account_not_found
          [where w = connectedWallet and env = noAccountEnv and client = 1
             and pk = "str ''account''" and s = initialPanel]
  by (simp add: connectedWallet_def noAccountEnv_def)

text \<open>
  C3. A second initialisation that begins while the first is still awaiting
  \<open>client.subscribe()\<close> is claimed to be ignored. The guard of the effect tests
  \<open>driftClient\<close>, which the first run sets only after that await: when the effect runs
  again in between, the guard passes, a second client is built and a second
  subscription is made.
\<close>

theorem connectEffect_twice_subscribes_twice:
  "(case connectEffect connectedWallet noAccountEnv initialPanel of
      (s1, calls1, pending1) \<Rightarrow>
        (case connectEffect connectedWallet (noAccountEnv\<lparr>newDriftClient := Inr 3\<rparr>) s1 of
           (s2, calls2, pending2) \<Rightarrow> (driftClient s1, pending1, pending2, calls1 @ calls2)))
   = (None, Some 1, Some 3, [ClientSubscribe 1, ClientSubscribe 3])"
  by (simp add: eval_init connectedWallet_def noAccountEnv_def initialPanel_def)

text \<open>
  C4. Every string that is not a well-formed decimal numeral is claimed to be rejected
  as non-numeric. \<open>parseFloat\<close> reads the longest numeric prefix and ignores the rest, so
  \<open>12abc\<close> and \<open>1.2.3\<close> are accepted; the sizing step then trades the prefix.
\<close>

theorem validateAmount_accepts_trailing_text:
  "validateAmount (str ''12abc'') = \<lparr>valid = True, error = None\<rparr>
   \<and> validateAmount (str ''1.2.3'') = \<lparr>valid = True, error = None\<rparr>
   \<and> baseAmount (str ''12abc'') = Inr 12000000"
  by (simp add: eval_string eval_number eval_validate eval_sizing)

text \<open>
  C5. The slippage tolerance, a percentage with one decimal digit, is claimed to become
  exactly that percentage times 100. The product is taken in floating point: for the
  slider value \<open>4.1\<close> it is \<open>409.99999999999994\<close> (\<open>product_4_1\<close>) and truncates to 409
  basis points, where 4.1 percent is 410.
\<close>

theorem slippageBps_one_short:
  "slippageBps (parseFloat (str ''4.1'')) = Inr 409 \<and> \<lfloor>(41 / 10 :: rat) * 100\<rfloor> = 410"
  by (simp add: eval_string eval_number eval_sizing)




text \<open>
  C7. The teardown never throws, whatever the two \<open>unsubscribe\<close> calls do: it calls
  \<open>unsubscribe\<close> on each handle that is set and returns; afterwards each rejection is
  caught and logged with \<open>console.error\<close>, in whatever order the promises settle, and no
  rejection is left unhandled.
\<close>

theorem cleanup_never_throws:
  "cleanup env s =
     ((case driftClient s of None \<Rightarrow> [] | Some c \<Rightarrow> [ClientUnsubscribe c])
      @ (case user s of None \<Rightarrow> [] | Some u \<Rightarrow> [UserUnsubscribe u]),
      (case driftClient s of
         None \<Rightarrow> {#}
       | Some c \<Rightarrow>
           (case clientUnsubscribe env of
              Inl err \<Rightarrow> {#ConsoleError (str ''Error unsubscribing driftClient:'') err#}
            | Inr _ \<Rightarrow> {#}))
      + (case user s of
           None \<Rightarrow> {#}
         | Some u \<Rightarrow>
             (case userUnsubscribe env of
                Inl err \<Rightarrow> {#ConsoleError (str ''Error unsubscribing user:'') err#}
              | Inr _ \<Rightarrow> {#})),
      [])"
  by (simp add: cleanup_def promiseCatch_def unhandled_def split: option.split sum.split)

theorem cleanup_never_throws_witness:
  "cleanup failingUnsubEnv readyPanel =
     ([ClientUnsubscribe 1, UserUnsubscribe 2],
      {#ConsoleError (str ''Error unsubscribing driftClient:'') (Error (str ''socket closed'')),
        ConsoleError (str ''Error unsubscribing user:'') (NonError (str ''gone''))#},
      [])"
  using cleanup_never_throws [of failingUnsubEnv readyPanel]
  by (simp add: failingUnsubEnv_def readyPanel_def initialPanel_def)

text \<open>
  C8. When a precondition of \<open>openPosition\<close> fails, the call returns at once, makes no
  call on the venue and changes nothing but the status: with a handle missing, the
  amount empty or the terms not accepted the status is the precondition message; with
  an amount the validator rejects it is the cross mark followed by the validator's
  reason. After the disconnect effect has run for a wallet without public key, the
  client handle is cleared and every submission is rejected in the first way.
\<close>

theorem openPosition_preconditions:
  "(driftClient s = None \<or> user s = None \<or> amount s = [] \<or> \<not> termsAccepted
      \<longrightarrow> openPosition termsAccepted env dir s = (s\<lparr>status := preconditionsNotMet\<rparr>, []))
   \<and> (driftClient s \<noteq> None \<and> user s \<noteq> None \<and> amount s \<noteq> [] \<and> termsAccepted
        \<and> \<not> valid (validateAmount (amount s))
      \<longrightarrow> (\<exists>reason. error (validateAmount (amount s)) = Some reason
            \<and> openPosition termsAccepted env dir s = (s\<lparr>status := [10060, 32] @ reason\<rparr>, [])))
   \<and> (publicKey w = None
      \<longrightarrow> openPosition termsAccepted env dir (fst (disconnectEffect w ue s))
          = ((fst (disconnectEffect w ue s))\<lparr>status := preconditionsNotMet\<rparr>, []))"
proof (intro conjI impI)
  assume "driftClient s = None \<or> user s = None \<or> amount s = [] \<or> \<not> termsAccepted"
  then show "openPosition termsAccepted env dir s = (s\<lparr>status := preconditionsNotMet\<rparr>, [])"
    by (auto simp: openPosition_def split: option.split)
next
  assume a: "driftClient s \<noteq> None \<and> user s \<noteq> None \<and> amount s \<noteq> [] \<and> termsAccepted
        \<and> \<not> valid (validateAmount (amount s))"
  then obtain reason where r: "error (validateAmount (amount s)) = Some reason"
    using validateAmount_invalid_error by blast
  with a show "\<exists>reason. error (validateAmount (amount s)) = Some reason
            \<and> openPosition termsAccepted env dir s = (s\<lparr>status := [10060, 32] @ reason\<rparr>, [])"
    by (auto simp: openPosition_def split: option.split)
next
  assume "publicKey w = None"
  then have "driftClient (fst (disconnectEffect w ue s)) = None"
    by (rule disconnectEffect_clears_client)
  then show "openPosition termsAccepted env dir (fst (disconnectEffect w ue s))
          = ((fst (disconnectEffect w ue s))\<lparr>status := preconditionsNotMet\<rparr>, [])"
    by (simp add: openPosition_def)
qed

theorem openPosition_preconditions_witness:
  "openPosition False confirmedEnv LONG readyPanel
     = (readyPanel\<lparr>status := preconditionsNotMet\<rparr>, [])
   \<and> (\<exists>reason. error (validateAmount (str ''0.5'')) = Some reason
        \<and> openPosition True confirmedEnv LONG (readyPanel\<lparr>amount := str ''0.5''\<rparr>)
            = (readyPanel\<lparr>amount := str ''0.5'', status := [10060, 32] @ reason\<rparr>, []))
   \<and> openPosition True confirmedEnv LONG
         (fst (disconnectEffect (connectedWallet\<lparr>publicKey := None\<rparr>) failingUnsubEnv readyPanel))
       = ((fst (disconnectEffect (connectedWallet\<lparr>publicKey := None\<rparr>) failingUnsubEnv readyPanel))
            \<lparr>status := preconditionsNotMet\<rparr>, [])"
proof -
  have invalid: "\<not> valid (validateAmount (str ''0.5''))"
    by (simp add: eval_string eval_number eval_validate)
  show ?thesis
    using invalid
      openPosition_preconditions
        [of readyPanel False confirmedEnv LONG "connectedWallet\<lparr>publicKey := None\<rparr>"
            failingUnsubEnv]
      openPosition_preconditions
        [of "readyPanel\<lparr>amount := str ''0.5''\<rparr>" True confirmedEnv LONG
            "connectedWallet\<lparr>publicKey := None\<rparr>" failingUnsubEnv]
      openPosition_preconditions
        [of readyPanel True confirmedEnv LONG "connectedWallet\<lparr>publicKey := None\<rparr>"
            failingUnsubEnv]
    by (simp add: readyPanel_def initialPanel_def str_def)
qed

text \<open>
  C9. Every error whose message contains \<open>rejected\<close> anywhere, and none of the three
  earlier substrings, is reported as cancelled by the user; so is, for instance,
  \<open>Transaction rejected by validator\<close>. The message of the error is the string that
  \<open>messageOf\<close> gives for it.
\<close>

theorem getUserFriendlyError_rejected:
  assumes "messageOf err = Inr message"
    and "includes_js message (str ''rejected'')"
    and "\<not> includes_js message (str ''insufficient funds'')"
    and "\<not> includes_js message (str ''insufficient lamports'')"
    and "\<not> includes_js message (str ''slippage'')"
  shows "getUserFriendlyError err = Inr (str ''Transaction cancelled by user.'')"
  using assms by (simp add: getUserFriendlyError_def)

theorem getUserFriendlyError_rejected_witness:
  "getUserFriendlyError (Error (str ''Transaction rejected by validator''))
     = Inr (str ''Transaction cancelled by user.'')"
  by (rule getUserFriendlyError_rejected [of _ "str ''Transaction rejected by validator''"])
     (simp_all add: str_def)

text \<open>
  C10. A submission succeeds when the preconditions hold, the order parameters are
  built, the venue returns a signature and the confirmation carries no error. Then
  \<open>openPosition\<close> clears the amount and the amount error; in every other case the amount
  is left as it was. In all cases the leverage, the slippage tolerance, the selected
  market and the two session handles are unchanged.
\<close>

theorem openPosition_clears_form:
  "(driftClient s \<noteq> None \<and> user s \<noteq> None \<and> amount s \<noteq> [] \<and> termsAccepted
      \<and> valid (validateAmount (amount s)) \<and> \<not> isl (buildOrderParams s dir)
      \<and> \<not> isl (placeOrder env) \<and> confirmation env = Inr False
     \<longrightarrow> amount (fst (openPosition termsAccepted env dir s)) = []
        \<and> amountError (fst (openPosition termsAccepted env dir s)) = [])
   \<and> (\<not> (driftClient s \<noteq> None \<and> user s \<noteq> None \<and> amount s \<noteq> [] \<and> termsAccepted
      \<and> valid (validateAmount (amount s)) \<and> \<not> isl (buildOrderParams s dir)
      \<and> \<not> isl (placeOrder env) \<and> confirmation env = Inr False)
     \<longrightarrow> amount (fst (openPosition termsAccepted env dir s)) = amount s)
   \<and> leverage (fst (openPosition termsAccepted env dir s)) = leverage s
   \<and> slippageTolerance (fst (openPosition termsAccepted env dir s)) = slippageTolerance s
   \<and> selectedMarket (fst (openPosition termsAccepted env dir s)) = selectedMarket s
   \<and> driftClient (fst (openPosition termsAccepted env dir s)) = driftClient s
   \<and> user (fst (openPosition termsAccepted env dir s)) = user s"
  using openPosition_success [of s termsAccepted dir env]
    openPosition_failure [of s termsAccepted dir env]
    openPosition_frame [of termsAccepted env dir s]
  by blast

theorem openPosition_clears_form_witness:
  "amount readyPanel = str ''500''
   \<and> amount (fst (openPosition True confirmedEnv LONG readyPanel)) = []
   \<and> amountError (fst (openPosition True confirmedEnv LONG readyPanel)) = []
   \<and> amount (fst (openPosition True (confirmedEnv\<lparr>confirmation := Inr True\<rparr>) LONG readyPanel))
       = str ''500''
   \<and> leverage (fst (openPosition True confirmedEnv LONG readyPanel)) = str ''5''"
proof -
  have pre: "driftClient readyPanel \<noteq> None \<and> user readyPanel \<noteq> None
      \<and> amount readyPanel = str ''500'' \<and> leverage readyPanel = str ''5''"
    by (simp add: readyPanel_def initialPanel_def)
  have nonempty: "str ''500'' \<noteq> []"
    by (simp add: str_def)
  have built: "\<not> isl (buildOrderParams readyPanel LONG)"
    by (simp add: buildOrderParams_ready)
  have placed: "\<not> isl (placeOrder confirmedEnv) \<and> confirmation confirmedEnv = Inr False"
    by (simp add: confirmedEnv_def)
  show ?thesis
    using pre nonempty built placed validateAmount_500
      openPosition_clears_form [of readyPanel True LONG confirmedEnv]
      openPosition_clears_form [of readyPanel True LONG "confirmedEnv\<lparr>confirmation := Inr True\<rparr>"]
    by simp
qed

end
